theory Spec2Isabelle
  imports Main
begin

section \<open>Halo load/store of the Astaroth interface (loadStore.cc)\<close>

text \<open>
  A shallow embedding of \<^verbatim>\<open>src/astaroth/loadStore.cc\<close>: the halo widths computed by
  \<^verbatim>\<open>initLoadStore\<close>, the staging buffers it allocates and \<^verbatim>\<open>finalLoadStore\<close> releases,
  and the twelve copier functions, each of which issues one call of the Astaroth node
  interface.

  C's \<^verbatim>\<open>int\<close> is modelled by \<open>int\<close>: the source computes with grid extents and ghost
  depths only, signed overflow is undefined behaviour in C++ and has no wrap-around to
  write out. Array indices (\<^verbatim>\<open>BOT\<close>, \<^verbatim>\<open>TOP\<close>, \<^verbatim>\<open>TOT\<close>) are \<open>nat\<close>; the arrays
  are lists of their declared lengths.
\<close>

subsection \<open>Configuration: the constants and flags of cparam\_c.h and cdata\_c.h\<close>

text \<open>
  The two headers are not among the sources, so every constant the file reads from them
  is a field of the configuration: the ghost depth, the extents without
  (\<open>nx\<close>) and with (\<open>mx\<close>) ghost layers, the 1-based first and last interior indices
  (\<open>l1..l2\<close>, \<open>m1..m2\<close>, \<open>n1..n2\<close>), the periodicity and position flags, the yin-yang
  flag, the number of fields and the size of one \<^verbatim>\<open>AcReal\<close>.
\<close>

record config =
  nghost :: int
  nx :: int
  ny :: int
  nz :: int
  mx :: int
  my :: int
  mz :: int
  l1 :: int
  l2 :: int
  m1 :: int
  m2 :: int
  n1 :: int
  n2 :: int
  lperi :: "bool list"
  lfirst_proc_x :: bool
  llast_proc_x :: bool
  lfirst_proc_y :: bool
  llast_proc_y :: bool
  lfirst_proc_z :: bool
  llast_proc_z :: bool
  lyinyang :: bool
  NUM_VTXBUF_HANDLES :: int
  sizeof_AcReal :: int

text \<open>\<^verbatim>\<open>const int mxy=mx*my, nxy=nx*ny;\<close>\<close>

definition mxy :: "config \<Rightarrow> int" where
  "mxy cfg = mx cfg * my cfg"

definition nxy :: "config \<Rightarrow> int" where
  "nxy cfg = nx cfg * ny cfg"

text \<open>
  Modelled from the spec: cparam\_c.h is missing, and with it the relation between the
  extents and the indices. The mesh covers "the full local domain including all ghost
  layers", the ghost layers being \<open>nghost\<close> deep on either side, and the interior is
  addressed by "1-based interior-domain indices".
\<close>

definition pencil_geometry :: "config \<Rightarrow> bool" where
  "pencil_geometry cfg \<longleftrightarrow>
     mx cfg = nx cfg + 2 * nghost cfg \<and>
     my cfg = ny cfg + 2 * nghost cfg \<and>
     mz cfg = nz cfg + 2 * nghost cfg \<and>
     l1 cfg = 1 + nghost cfg \<and> l2 cfg = mx cfg - nghost cfg \<and>
     m1 cfg = 1 + nghost cfg \<and> m2 cfg = my cfg - nghost cfg \<and>
     n1 cfg = 1 + nghost cfg \<and> n2 cfg = mz cfg - nghost cfg"

subsection \<open>Host memory: malloc and free\<close>

text \<open>
  A pointer is an address, \<open>0\<close> being \<^verbatim>\<open>NULL\<close>. The allocator keeps the live blocks
  with their sizes in bytes and the number of bytes it can still hand out.
  \<^verbatim>\<open>malloc\<close> returns \<^verbatim>\<open>NULL\<close> when the request cannot be served, and otherwise an
  address that no live block has; a negative \<^verbatim>\<open>int\<close> converts to a \<^verbatim>\<open>size_t\<close> above
  every capacity and is refused as well. \<^verbatim>\<open>free\<close> of
  \<^verbatim>\<open>NULL\<close> does nothing; \<^verbatim>\<open>free\<close> of an address that is not a live block (a block
  released before) is undefined behaviour in C: the model returns it as an error.
\<close>

type_synonym ptr = nat

definition NULL :: ptr where
  [simp]: "NULL = 0"

record memory =
  live :: "(ptr \<times> int) list"
  capacity :: int

datatype error = InvalidFree ptr

definition fresh_addr :: "(ptr \<times> int) list \<Rightarrow> ptr" where
  "fresh_addr blocks = Suc (Max (set (0 # map fst blocks)))"

definition malloc :: "memory \<Rightarrow> int \<Rightarrow> ptr \<times> memory" where
  "malloc h n =
     (if n < 0 \<or> capacity h < n then (NULL, h)
      else (fresh_addr (live h),
            h\<lparr>live := (fresh_addr (live h), n) # live h, capacity := capacity h - n\<rparr>))"

definition free :: "memory \<Rightarrow> ptr \<Rightarrow> error + memory" where
  "free h p =
     (if p = NULL then Inr h
      else case map_of (live h) p of
             None \<Rightarrow> Inl (InvalidFree p)
           | Some n \<Rightarrow> Inr (h\<lparr>live := filter (\<lambda>b. fst b \<noteq> p) (live h),
                                capacity := capacity h + n\<rparr>))"

subsection \<open>The state of the file: halo widths, staging sizes, staging buffers\<close>

definition BOT :: nat where
  [simp]: "BOT = 0"

definition TOP :: nat where
  [simp]: "TOP = 1"

definition TOT :: nat where
  [simp]: "TOT = 2"

record state =
  halo_widths_x :: "int list"
  halo_widths_y :: "int list"
  halo_widths_z :: "int list"
  halo_xz_size :: "int list"
  halo_yz_size :: "int list"
  halo_xz_buffer :: "ptr list"
  halo_yz_buffer :: "ptr list"
  mem :: memory

text \<open>
  The state at program start: the three width arrays carry their initialisers
  \<^verbatim>\<open>{nghost,nghost,2*nghost}\<close>, the static buffer pointers are null, and the two size
  arrays (defined in another file) are taken as zero; \<^verbatim>\<open>initLoadStore\<close> overwrites them.
\<close>

definition initial_state :: "config \<Rightarrow> memory \<Rightarrow> state" where
  "initial_state cfg h =
     \<lparr>halo_widths_x = [nghost cfg, nghost cfg, 2 * nghost cfg],
      halo_widths_y = [nghost cfg, nghost cfg, 2 * nghost cfg],
      halo_widths_z = [nghost cfg, nghost cfg, 2 * nghost cfg],
      halo_xz_size = [0, 0],
      halo_yz_size = [0, 0],
      halo_xz_buffer = [NULL, NULL],
      halo_yz_buffer = [NULL, NULL],
      mem = h\<rparr>"

text \<open>The declared lengths of the arrays.\<close>

definition arrays_ok :: "state \<Rightarrow> bool" where
  "arrays_ok s \<longleftrightarrow>
     length (halo_widths_x s) = 3 \<and> length (halo_widths_y s) = 3 \<and>
     length (halo_widths_z s) = 3 \<and>
     length (halo_xz_size s) = 2 \<and> length (halo_yz_size s) = 2 \<and>
     length (halo_xz_buffer s) = 2 \<and> length (halo_yz_buffer s) = 2"

text \<open>All four staging buffers are allocated: none of the pointers is null.\<close>

definition buffers_allocated :: "state \<Rightarrow> bool" where
  "buffers_allocated s \<longleftrightarrow>
     halo_xz_buffer s ! BOT \<noteq> NULL \<and> halo_xz_buffer s ! TOP \<noteq> NULL \<and>
     halo_yz_buffer s ! BOT \<noteq> NULL \<and> halo_yz_buffer s ! TOP \<noteq> NULL"

subsection \<open>initLoadStore\<close>

text \<open>Lines 37 to 53: the halo widths for the undivided data cube.\<close>

definition init_widths :: "config \<Rightarrow> state \<Rightarrow> state" where
  "init_widths cfg s0 =
     (let
        s1 = (if \<not> lperi cfg ! 0 then
                (let sa = (if lfirst_proc_x cfg
                           then s0\<lparr>halo_widths_x := (halo_widths_x s0)[BOT := nghost cfg + 1]\<rparr>
                           else s0)
                 in (if llast_proc_x cfg
                     then sa\<lparr>halo_widths_x := (halo_widths_x sa)[TOP := nghost cfg + 1]\<rparr>
                     else sa))
              else s0);
        s2 = (if \<not> lyinyang cfg then
                (let
                   sy = (if \<not> lperi cfg ! 1 then
                           (let sa = (if lfirst_proc_y cfg
                                      then s1\<lparr>halo_widths_y := (halo_widths_y s1)[BOT := nghost cfg + 1]\<rparr>
                                      else s1)
                            in (if llast_proc_y cfg
                                then sa\<lparr>halo_widths_y := (halo_widths_y sa)[TOP := nghost cfg + 1]\<rparr>
                                else sa))
                         else s1)
                 in (if \<not> lperi cfg ! 2 then
                       (let sa = (if lfirst_proc_z cfg
                                  then sy\<lparr>halo_widths_z := (halo_widths_z sy)[BOT := nghost cfg + 1]\<rparr>
                                  else sy)
                        in (if llast_proc_z cfg
                            then sa\<lparr>halo_widths_z := (halo_widths_z sa)[TOP := nghost cfg + 1]\<rparr>
                            else sa))
                     else sy))
              else s1);
        s3 = s2\<lparr>halo_widths_x :=
                 (halo_widths_x s2)[TOT := halo_widths_x s2 ! BOT + halo_widths_x s2 ! TOP]\<rparr>;
        s4 = s3\<lparr>halo_widths_y :=
                 (halo_widths_y s3)[TOT := halo_widths_y s3 ! BOT + halo_widths_y s3 ! TOP]\<rparr>
      in s4\<lparr>halo_widths_z :=
              (halo_widths_z s4)[TOT := halo_widths_z s4 ! BOT + halo_widths_z s4 ! TOP]\<rparr>)"

text \<open>Lines 62 to 65: the body of the loop over \<^verbatim>\<open>i\<close>, allocation guarded by the null check.\<close>

definition init_buffers_step :: "config \<Rightarrow> nat \<Rightarrow> state \<Rightarrow> state" where
  "init_buffers_step cfg i s0 =
     (let
        s1 = s0\<lparr>halo_xz_size := (halo_xz_size s0)
                 [i := mx cfg * nz cfg * halo_widths_y s0 ! i * NUM_VTXBUF_HANDLES cfg]\<rparr>;
        s2 = s1\<lparr>halo_yz_size := (halo_yz_size s1)
                 [i := ny cfg * nz cfg * halo_widths_x s1 ! i * NUM_VTXBUF_HANDLES cfg]\<rparr>;
        s3 = (if halo_xz_buffer s2 ! i = NULL then
                (let (p, h) = malloc (mem s2) (halo_xz_size s2 ! i * sizeof_AcReal cfg)
                 in s2\<lparr>halo_xz_buffer := (halo_xz_buffer s2)[i := p], mem := h\<rparr>)
              else s2)
      in (if halo_yz_buffer s3 ! i = NULL then
            (let (p, h) = malloc (mem s3) (halo_yz_size s3 ! i * sizeof_AcReal cfg)
             in s3\<lparr>halo_yz_buffer := (halo_yz_buffer s3)[i := p], mem := h\<rparr>)
          else s3))"

text \<open>\<^verbatim>\<open>for (int i=BOT; i<=TOP; i++)\<close>\<close>

definition init_buffers :: "config \<Rightarrow> state \<Rightarrow> state" where
  "init_buffers cfg s = fold (init_buffers_step cfg) [BOT..<Suc TOP] s"

definition initLoadStore :: "config \<Rightarrow> state \<Rightarrow> state" where
  "initLoadStore cfg s = init_buffers cfg (init_widths cfg s)"

subsection \<open>finalLoadStore\<close>

definition final_step :: "nat \<Rightarrow> state \<Rightarrow> error + state" where
  "final_step i s =
     (case free (mem s) (halo_xz_buffer s ! i) of
        Inl e \<Rightarrow> Inl e
      | Inr h1 \<Rightarrow>
          (case free h1 (halo_yz_buffer s ! i) of
             Inl e \<Rightarrow> Inl e
           | Inr h2 \<Rightarrow> Inr (s\<lparr>mem := h2\<rparr>)))"

fun for_each :: "(nat \<Rightarrow> state \<Rightarrow> error + state) \<Rightarrow> nat list \<Rightarrow> state \<Rightarrow> error + state" where
  "for_each body [] s = Inr s"
| "for_each body (i # is) s =
     (case body i s of Inl e \<Rightarrow> Inl e | Inr s' \<Rightarrow> for_each body is s')"

definition finalLoadStore :: "state \<Rightarrow> error + state" where
  "finalLoadStore s = for_each final_step [BOT..<Suc TOP] s"

subsection \<open>The Astaroth node interface, as the calls the copiers issue\<close>

text \<open>
  Modelled from the spec: astaroth.h and math\_utils.h are missing. An execution channel
  is "an identifier for an independent, ordered asynchronous transfer/compute stream";
  the file names seven of them. A plate is tagged by the two axes it spans. \<^verbatim>\<open>int3\<close> is
  a triple of \<^verbatim>\<open>int\<close>, and adding or subtracting an \<^verbatim>\<open>int\<close> acts on each component.
\<close>

datatype Stream =
  STREAM_DEFAULT | STREAM_1 | STREAM_2 | STREAM_3 | STREAM_4 | STREAM_5 | STREAM_6

datatype PlateType = AC_XY | AC_XZ | AC_YZ

type_synonym int3 = "int \<times> int \<times> int"

fun int3_plus :: "int3 \<Rightarrow> int \<Rightarrow> int3" where
  "int3_plus (x, y, z) k = (x + k, y + k, z + k)"

fun int3_minus :: "int3 \<Rightarrow> int \<Rightarrow> int3" where
  "int3_minus (x, y, z) k = (x - k, y - k, z - k)"

text \<open>
  Each copier hands its arguments to one function of the node interface and returns
  nothing; the model returns the calls it issues, in order. The arguments are the
  stream, the coordinates, the mesh, and the staging buffer with the plate tag or the
  side tag. The global \<^verbatim>\<open>node\<close> is the same in every call and is left out.
\<close>

datatype 'mesh ac_call =
  AcNodeLoadMeshWithOffset Stream 'mesh int3 int3 int
| AcNodeLoadPlateXcomp Stream int3 int3 'mesh ptr PlateType
| AcNodeLoadPlate Stream int3 int3 'mesh ptr PlateType
| AcNodeStoreIXYPlate Stream int3 int3 'mesh nat
| AcNodeStorePlate Stream int3 int3 'mesh ptr PlateType

subsection \<open>The six load operations and their driver\<close>

definition loadOuterFront :: "config \<Rightarrow> state \<Rightarrow> 'mesh \<Rightarrow> Stream \<Rightarrow> 'mesh ac_call list" where
  "loadOuterFront cfg s mesh stream =
     (let src = (0, 0, 0);
          num_vertices = mxy cfg * halo_widths_z s ! BOT
      in [AcNodeLoadMeshWithOffset stream mesh src src num_vertices])"

definition loadOuterBack :: "config \<Rightarrow> state \<Rightarrow> 'mesh \<Rightarrow> Stream \<Rightarrow> 'mesh ac_call list" where
  "loadOuterBack cfg s mesh stream =
     (let src = (0, 0, mz cfg - halo_widths_z s ! TOP);
          num_vertices = mxy cfg * halo_widths_z s ! TOP
      in [AcNodeLoadMeshWithOffset stream mesh src src num_vertices])"

definition loadOuterBot :: "config \<Rightarrow> state \<Rightarrow> 'mesh \<Rightarrow> Stream \<Rightarrow> 'mesh ac_call list" where
  "loadOuterBot cfg s mesh stream =
     (let start = (0, 0, halo_widths_z s ! BOT);
          end' = (mx cfg, halo_widths_y s ! BOT, mz cfg - halo_widths_z s ! TOP)
      in [AcNodeLoadPlateXcomp stream start end' mesh (halo_xz_buffer s ! BOT) AC_XZ])"

definition loadOuterTop :: "config \<Rightarrow> state \<Rightarrow> 'mesh \<Rightarrow> Stream \<Rightarrow> 'mesh ac_call list" where
  "loadOuterTop cfg s mesh stream =
     (let start = (0, my cfg - halo_widths_y s ! TOP, halo_widths_z s ! BOT);
          end' = (mx cfg, my cfg, mz cfg - halo_widths_z s ! TOP)
      in [AcNodeLoadPlateXcomp stream start end' mesh (halo_xz_buffer s ! TOP) AC_XZ])"

definition loadOuterLeft :: "config \<Rightarrow> state \<Rightarrow> 'mesh \<Rightarrow> Stream \<Rightarrow> 'mesh ac_call list" where
  "loadOuterLeft cfg s mesh stream =
     (let start = (0, halo_widths_y s ! BOT, halo_widths_z s ! BOT);
          end' = int3_plus (halo_widths_x s ! BOT - 1,
                            my cfg - halo_widths_y s ! TOP - 1,
                            mz cfg - halo_widths_z s ! TOP - 1) 1
      in [AcNodeLoadPlate stream start end' mesh (halo_yz_buffer s ! BOT) AC_YZ])"

definition loadOuterRight :: "config \<Rightarrow> state \<Rightarrow> 'mesh \<Rightarrow> Stream \<Rightarrow> 'mesh ac_call list" where
  "loadOuterRight cfg s mesh stream =
     (let start = (mx cfg - halo_widths_x s ! TOP, halo_widths_y s ! BOT, halo_widths_z s ! BOT);
          end' = int3_plus (mx cfg - 1,
                            my cfg - halo_widths_y s ! TOP - 1,
                            mz cfg - halo_widths_z s ! TOP - 1) 1
      in [AcNodeLoadPlate stream start end' mesh (halo_yz_buffer s ! TOP) AC_YZ])"

definition loadOuterHalos :: "config \<Rightarrow> state \<Rightarrow> 'mesh \<Rightarrow> 'mesh ac_call list" where
  "loadOuterHalos cfg s mesh =
     loadOuterFront cfg s mesh STREAM_DEFAULT @
     loadOuterBack cfg s mesh STREAM_DEFAULT @
     loadOuterTop cfg s mesh STREAM_DEFAULT @
     loadOuterBot cfg s mesh STREAM_DEFAULT @
     loadOuterLeft cfg s mesh STREAM_DEFAULT @
     loadOuterRight cfg s mesh STREAM_DEFAULT"

subsection \<open>The six store operations and their driver\<close>

definition storeInnerFront :: "config \<Rightarrow> state \<Rightarrow> 'mesh \<Rightarrow> Stream \<Rightarrow> 'mesh ac_call list" where
  "storeInnerFront cfg s mesh stream =
     (let start = int3_minus (l1 cfg, m1 cfg, n1 cfg) 1;
          end' = int3_plus (int3_minus (l2 cfg, m2 cfg, n1 cfg + halo_widths_z s ! BOT - 1) 1) 1
      in [AcNodeStoreIXYPlate stream start end' mesh BOT])"

definition storeInnerBack :: "config \<Rightarrow> state \<Rightarrow> 'mesh \<Rightarrow> Stream \<Rightarrow> 'mesh ac_call list" where
  "storeInnerBack cfg s mesh stream =
     (let start = int3_minus (l1 cfg, m1 cfg, n2 cfg - halo_widths_z s ! TOP + 1) 1;
          end' = int3_plus (int3_minus (l2 cfg, m2 cfg, n2 cfg) 1) 1
      in [AcNodeStoreIXYPlate stream start end' mesh TOP])"

definition storeInnerBot :: "config \<Rightarrow> state \<Rightarrow> 'mesh \<Rightarrow> Stream \<Rightarrow> 'mesh ac_call list" where
  "storeInnerBot cfg s mesh stream =
     (let start = int3_minus (l1 cfg, m1 cfg, n1 cfg + halo_widths_z s ! BOT) 1;
          end' = int3_plus (int3_minus (l2 cfg, m1 cfg + halo_widths_y s ! BOT - 1,
                                        n2 cfg - halo_widths_z s ! TOP) 1) 1
      in [AcNodeStorePlate stream start end' mesh (halo_xz_buffer s ! BOT) AC_XZ])"

definition storeInnerTop :: "config \<Rightarrow> state \<Rightarrow> 'mesh \<Rightarrow> Stream \<Rightarrow> 'mesh ac_call list" where
  "storeInnerTop cfg s mesh stream =
     (let start = int3_minus (l1 cfg, m2 cfg - halo_widths_y s ! TOP + 1,
                              n1 cfg + halo_widths_z s ! BOT) 1;
          end' = int3_plus (int3_minus (l2 cfg, m2 cfg, n2 cfg - halo_widths_z s ! TOP) 1) 1
      in [AcNodeStorePlate stream start end' mesh (halo_xz_buffer s ! TOP) AC_XZ])"

definition storeInnerLeft :: "config \<Rightarrow> state \<Rightarrow> 'mesh \<Rightarrow> Stream \<Rightarrow> 'mesh ac_call list" where
  "storeInnerLeft cfg s mesh stream =
     (let start = int3_minus (l1 cfg, m1 cfg + halo_widths_y s ! BOT,
                              n1 cfg + halo_widths_z s ! BOT) 1;
          end' = int3_plus (int3_minus (l1 cfg + halo_widths_x s ! BOT - 1,
                                        m2 cfg - halo_widths_y s ! TOP,
                                        n2 cfg - halo_widths_z s ! TOP) 1) 1
      in [AcNodeStorePlate stream start end' mesh (halo_yz_buffer s ! BOT) AC_YZ])"

definition storeInnerRight :: "config \<Rightarrow> state \<Rightarrow> 'mesh \<Rightarrow> Stream \<Rightarrow> 'mesh ac_call list" where
  "storeInnerRight cfg s mesh stream =
     (let start = int3_minus (l2 cfg - halo_widths_x s ! TOP + 1,
                              m1 cfg + halo_widths_y s ! BOT,
                              n1 cfg + halo_widths_z s ! BOT) 1;
          end' = int3_plus (int3_minus (l2 cfg, m2 cfg - halo_widths_y s ! TOP,
                                        n2 cfg - halo_widths_z s ! TOP) 1) 1
      in [AcNodeStorePlate stream start end' mesh (halo_yz_buffer s ! TOP) AC_YZ])"

definition storeInnerHalos :: "config \<Rightarrow> state \<Rightarrow> 'mesh \<Rightarrow> 'mesh ac_call list" where
  "storeInnerHalos cfg s mesh =
     storeInnerLeft cfg s mesh STREAM_4 @
     storeInnerRight cfg s mesh STREAM_5 @
     storeInnerBot cfg s mesh STREAM_2 @
     storeInnerTop cfg s mesh STREAM_3 @
     storeInnerFront cfg s mesh STREAM_6 @
     storeInnerBack cfg s mesh STREAM_1"

subsection \<open>What a call touches\<close>

fun call_stream :: "'mesh ac_call \<Rightarrow> Stream" where
  "call_stream (AcNodeLoadMeshWithOffset st _ _ _ _) = st"
| "call_stream (AcNodeLoadPlateXcomp st _ _ _ _ _) = st"
| "call_stream (AcNodeLoadPlate st _ _ _ _ _) = st"
| "call_stream (AcNodeStoreIXYPlate st _ _ _ _) = st"
| "call_stream (AcNodeStorePlate st _ _ _ _ _) = st"


fun call_boxes :: "'mesh ac_call \<Rightarrow> (int3 \<times> int3) list" where
  "call_boxes (AcNodeLoadMeshWithOffset _ _ _ _ _) = []"
| "call_boxes (AcNodeLoadPlateXcomp _ b e _ _ _) = [(b, e)]"
| "call_boxes (AcNodeLoadPlate _ b e _ _ _) = [(b, e)]"
| "call_boxes (AcNodeStoreIXYPlate _ b e _ _) = [(b, e)]"
| "call_boxes (AcNodeStorePlate _ b e _ _ _) = [(b, e)]"

fun in_box :: "int3 \<Rightarrow> int3 \<Rightarrow> int3 \<Rightarrow> bool" where
  "in_box (bx, by, bz) (ex, ey, ez) (x, y, z) \<longleftrightarrow>
     bx \<le> x \<and> x < ex \<and> by \<le> y \<and> y < ey \<and> bz \<le> z \<and> z < ez"

fun box_nonempty :: "int3 \<times> int3 \<Rightarrow> bool" where
  "box_nonempty ((bx, by, bz), (ex, ey, ez)) \<longleftrightarrow> bx < ex \<and> by < ey \<and> bz < ez"


text \<open>
  Modelled from the spec: the mesh is "laid out with the first axis fastest-varying,
  covering the full local domain including all ghost layers", so the cell \<open>(x, y, z)\<close>
  has the linear index \<open>x + y * mx + z * mx * my\<close>, and the bulk copy of
  \<^verbatim>\<open>acNodeLoadMeshWithOffset\<close> moves the \<open>num_vertices\<close> cells from the index of its start
  coordinate on.
\<close>

fun in_mesh :: "config \<Rightarrow> int3 \<Rightarrow> bool" where
  "in_mesh cfg (x, y, z) \<longleftrightarrow> 0 \<le> x \<and> x < mx cfg \<and> 0 \<le> y \<and> y < my cfg \<and> 0 \<le> z \<and> z < mz cfg"

fun vertex_idx :: "config \<Rightarrow> int3 \<Rightarrow> int" where
  "vertex_idx cfg (x, y, z) = x + y * mx cfg + z * mx cfg * my cfg"

fun covers :: "config \<Rightarrow> 'mesh ac_call \<Rightarrow> int3 \<Rightarrow> bool" where
  "covers cfg (AcNodeLoadMeshWithOffset _ _ src _ n) c \<longleftrightarrow>
     in_mesh cfg c \<and> vertex_idx cfg src \<le> vertex_idx cfg c \<and> vertex_idx cfg c < vertex_idx cfg src + n"
| "covers cfg (AcNodeLoadPlateXcomp _ b e _ _ _) c \<longleftrightarrow> in_box b e c"
| "covers cfg (AcNodeLoadPlate _ b e _ _ _) c \<longleftrightarrow> in_box b e c"
| "covers cfg (AcNodeStoreIXYPlate _ b e _ _) c \<longleftrightarrow> in_box b e c"
| "covers cfg (AcNodeStorePlate _ b e _ _ _) c \<longleftrightarrow> in_box b e c"


fun in_interior :: "config \<Rightarrow> int3 \<Rightarrow> bool" where
  "in_interior cfg (x, y, z) \<longleftrightarrow>
     l1 cfg - 1 \<le> x \<and> x < l2 cfg \<and> m1 cfg - 1 \<le> y \<and> y < m2 cfg \<and> n1 cfg - 1 \<le> z \<and> z < n2 cfg"

subsection \<open>The widths in closed form\<close>

text \<open>
  Two functions to state what the width phase computes: the width of one side, and the
  triple of one axis.
\<close>

definition widened :: "config \<Rightarrow> bool \<Rightarrow> bool \<Rightarrow> int" where
  "widened cfg periodic outermost = (if \<not> periodic \<and> outermost then nghost cfg + 1 else nghost cfg)"

text \<open>
  The three blocks of lines 37 to 53 do the same to each width array; \<open>widen\<close> is the
  guard of the block (the axis is not periodic, and for y and z the yin-yang mode is off).
\<close>

definition set_widths :: "int \<Rightarrow> bool \<Rightarrow> bool \<Rightarrow> bool \<Rightarrow> int list \<Rightarrow> int list" where
  "set_widths g widen isfirst islast w =
     (let w1 = (if widen \<and> isfirst then w[BOT := g + 1] else w);
          w2 = (if widen \<and> islast then w1[TOP := g + 1] else w1)
      in w2[TOT := w2 ! BOT + w2 ! TOP])"

subsection \<open>Concrete configurations\<close>

text \<open>
  A 32-cubed subdomain with three ghost layers, non-periodic in x and z, first along x
  and last along z; and the same subdomain in yin-yang mode with no periodic axis.
\<close>


definition mem0 :: memory where
  "mem0 = \<lparr>live = [], capacity = 1073741824\<rparr>"

definition cfg_32 :: config where
  "cfg_32 =
     \<lparr>nghost = 3, nx = 32, ny = 32, nz = 32, mx = 38, my = 38, mz = 38,
      l1 = 4, l2 = 35, m1 = 4, m2 = 35, n1 = 4, n2 = 35,
      lperi = [False, True, False],
      lfirst_proc_x = True, llast_proc_x = False,
      lfirst_proc_y = True, llast_proc_y = True,
      lfirst_proc_z = False, llast_proc_z = True,
      lyinyang = False, NUM_VTXBUF_HANDLES = 8, sizeof_AcReal = 8\<rparr>"

definition cfg_yinyang :: config where
  "cfg_yinyang = cfg_32\<lparr>lperi := [False, False, False], lyinyang := True\<rparr>"

text \<open>
  The smallest subdomain, one interior cell on each axis, with three ghost layers, no
  periodic axis, first and last along every axis: every side has the widened halo.
\<close>

definition cfg_min :: config where
  "cfg_min =
     \<lparr>nghost = 3, nx = 1, ny = 1, nz = 1, mx = 7, my = 7, mz = 7,
      l1 = 4, l2 = 4, m1 = 4, m2 = 4, n1 = 4, n2 = 4,
      lperi = [False, False, False],
      lfirst_proc_x = True, llast_proc_x = True,
      lfirst_proc_y = True, llast_proc_y = True,
      lfirst_proc_z = True, llast_proc_z = True,
      lyinyang = False, NUM_VTXBUF_HANDLES = 8, sizeof_AcReal = 8\<rparr>"

text \<open>The two configurations after \<^verbatim>\<open>initLoadStore\<close>, started from the static initialisers.\<close>

definition state_32 :: state where
  "state_32 = initLoadStore cfg_32 (initial_state cfg_32 mem0)"

definition state_min :: state where
  "state_min = initLoadStore cfg_min (initial_state cfg_min mem0)"

section \<open>Lemmas\<close>

subsection \<open>Halo widths after initialisation\<close>

lemma BOT_to_TOP: "[BOT..<Suc TOP] = [0, 1]"
  by (simp add: upt_rec)

lemma init_buffers_step_widths:
  "halo_widths_x (init_buffers_step cfg i s) = halo_widths_x s"
  "halo_widths_y (init_buffers_step cfg i s) = halo_widths_y s"
  "halo_widths_z (init_buffers_step cfg i s) = halo_widths_z s"
  by (simp_all add: init_buffers_step_def Let_def split: prod.splits)

lemma init_buffers_widths:
  "halo_widths_x (init_buffers cfg s) = halo_widths_x s"
  "halo_widths_y (init_buffers cfg s) = halo_widths_y s"
  "halo_widths_z (init_buffers cfg s) = halo_widths_z s"
  by (simp_all add: init_buffers_def BOT_to_TOP init_buffers_step_widths)

lemma init_widths_x:
  "halo_widths_x (init_widths cfg (initial_state cfg h)) =
     [widened cfg (lperi cfg ! 0) (lfirst_proc_x cfg),
      widened cfg (lperi cfg ! 0) (llast_proc_x cfg),
      widened cfg (lperi cfg ! 0) (lfirst_proc_x cfg) + widened cfg (lperi cfg ! 0) (llast_proc_x cfg)]"
  by (simp add: init_widths_def initial_state_def widened_def Let_def)

lemma init_widths_y:
  "halo_widths_y (init_widths cfg (initial_state cfg h)) =
     [widened cfg (lyinyang cfg \<or> lperi cfg ! 1) (lfirst_proc_y cfg),
      widened cfg (lyinyang cfg \<or> lperi cfg ! 1) (llast_proc_y cfg),
      widened cfg (lyinyang cfg \<or> lperi cfg ! 1) (lfirst_proc_y cfg)
        + widened cfg (lyinyang cfg \<or> lperi cfg ! 1) (llast_proc_y cfg)]"
  by (simp add: init_widths_def initial_state_def widened_def Let_def)

lemma init_widths_z:
  "halo_widths_z (init_widths cfg (initial_state cfg h)) =
     [widened cfg (lyinyang cfg \<or> lperi cfg ! 2) (lfirst_proc_z cfg),
      widened cfg (lyinyang cfg \<or> lperi cfg ! 2) (llast_proc_z cfg),
      widened cfg (lyinyang cfg \<or> lperi cfg ! 2) (lfirst_proc_z cfg)
        + widened cfg (lyinyang cfg \<or> lperi cfg ! 2) (llast_proc_z cfg)]"
  by (simp add: init_widths_def initial_state_def widened_def Let_def)

lemmas initLoadStore_widths =
  init_buffers_widths [of cfg "init_widths cfg (initial_state cfg h)", folded initLoadStore_def,
    unfolded init_widths_x init_widths_y init_widths_z] for cfg h

subsection \<open>The width phase, axis by axis\<close>

lemma length3: "length xs = 3 \<longleftrightarrow> (\<exists>a b c. xs = [a, b, c])"
  by (auto simp: numeral_eq_Suc length_Suc_conv)

lemma init_widths_alt:
  "init_widths cfg s =
     s\<lparr>halo_widths_x := set_widths (nghost cfg) (\<not> lperi cfg ! 0) (lfirst_proc_x cfg) (llast_proc_x cfg) (halo_widths_x s),
       halo_widths_y := set_widths (nghost cfg) (\<not> lyinyang cfg \<and> \<not> lperi cfg ! 1) (lfirst_proc_y cfg) (llast_proc_y cfg) (halo_widths_y s),
       halo_widths_z := set_widths (nghost cfg) (\<not> lyinyang cfg \<and> \<not> lperi cfg ! 2) (lfirst_proc_z cfg) (llast_proc_z cfg) (halo_widths_z s)\<rparr>"
  by (simp add: init_widths_def set_widths_def Let_def)

lemma set_widths_idem:
  "length w = 3 \<Longrightarrow> set_widths g widen isfirst islast (set_widths g widen isfirst islast w) = set_widths g widen isfirst islast w"
  by (auto simp: set_widths_def Let_def length3)

lemma init_widths_fixed:
  assumes "arrays_ok s"
    and "halo_widths_x t = halo_widths_x (init_widths cfg s)"
    and "halo_widths_y t = halo_widths_y (init_widths cfg s)"
    and "halo_widths_z t = halo_widths_z (init_widths cfg s)"
  shows "init_widths cfg t = t"
proof -
  have "init_widths cfg t = t\<lparr>halo_widths_x := halo_widths_x t, halo_widths_y := halo_widths_y t,
      halo_widths_z := halo_widths_z t\<rparr>"
    unfolding assms(2-4) init_widths_alt [of cfg t]
    using assms(1) by (simp add: init_widths_alt [of cfg s] set_widths_idem arrays_ok_def)
  then show ?thesis by simp
qed

subsection \<open>The buffer phase\<close>

lemma init_buffers_step_fixed:
  assumes "i < length (halo_xz_size s)" "i < length (halo_yz_size s)"
    and "halo_xz_size s ! i = mx cfg * nz cfg * halo_widths_y s ! i * NUM_VTXBUF_HANDLES cfg"
    and "halo_yz_size s ! i = ny cfg * nz cfg * halo_widths_x s ! i * NUM_VTXBUF_HANDLES cfg"
    and "halo_xz_buffer s ! i \<noteq> NULL" "halo_yz_buffer s ! i \<noteq> NULL"
  shows "init_buffers_step cfg i s = s"
  using assms by (simp add: init_buffers_step_def Let_def list_update_same_conv)

lemma init_buffers_step_sizes:
  "halo_xz_size (init_buffers_step cfg i s) =
     (halo_xz_size s)[i := mx cfg * nz cfg * halo_widths_y s ! i * NUM_VTXBUF_HANDLES cfg]"
  "halo_yz_size (init_buffers_step cfg i s) =
     (halo_yz_size s)[i := ny cfg * nz cfg * halo_widths_x s ! i * NUM_VTXBUF_HANDLES cfg]"
  by (simp_all add: init_buffers_step_def Let_def split: prod.splits)

lemma init_buffers_step_arrays_ok:
  "arrays_ok s \<Longrightarrow> arrays_ok (init_buffers_step cfg i s)"
  by (simp add: init_buffers_step_def arrays_ok_def Let_def split: prod.splits)

lemma init_widths_arrays_ok:
  "arrays_ok s \<Longrightarrow> arrays_ok (init_widths cfg s)"
  by (simp add: init_widths_alt set_widths_def arrays_ok_def Let_def)

lemma initLoadStore_arrays_ok:
  "arrays_ok s \<Longrightarrow> arrays_ok (initLoadStore cfg s)"
  by (simp add: initLoadStore_def init_buffers_def BOT_to_TOP
      init_buffers_step_arrays_ok init_widths_arrays_ok)

lemma initLoadStore_sizes:
  assumes "arrays_ok s"
  shows "halo_xz_size (initLoadStore cfg s) ! i =
           (if i < 2 then mx cfg * nz cfg * halo_widths_y (initLoadStore cfg s) ! i * NUM_VTXBUF_HANDLES cfg
            else halo_xz_size s ! i)"
    and "halo_yz_size (initLoadStore cfg s) ! i =
           (if i < 2 then ny cfg * nz cfg * halo_widths_x (initLoadStore cfg s) ! i * NUM_VTXBUF_HANDLES cfg
            else halo_yz_size s ! i)"
proof -
  have len: "length (halo_xz_size (init_widths cfg s)) = 2" "length (halo_yz_size (init_widths cfg s)) = 2"
    using init_widths_arrays_ok [OF assms, of cfg] by (simp_all add: arrays_ok_def)
  have same: "halo_xz_size (init_widths cfg s) = halo_xz_size s" "halo_yz_size (init_widths cfg s) = halo_yz_size s"
    by (simp_all add: init_widths_alt)
  show "halo_xz_size (initLoadStore cfg s) ! i =
           (if i < 2 then mx cfg * nz cfg * halo_widths_y (initLoadStore cfg s) ! i * NUM_VTXBUF_HANDLES cfg
            else halo_xz_size s ! i)"
    using len same
    by (auto simp: initLoadStore_def init_buffers_def BOT_to_TOP init_buffers_step_sizes
        init_buffers_step_widths nth_list_update less_Suc_eq numeral_2_eq_2)
  show "halo_yz_size (initLoadStore cfg s) ! i =
           (if i < 2 then ny cfg * nz cfg * halo_widths_x (initLoadStore cfg s) ! i * NUM_VTXBUF_HANDLES cfg
            else halo_yz_size s ! i)"
    using len same
    by (auto simp: initLoadStore_def init_buffers_def BOT_to_TOP init_buffers_step_sizes
        init_buffers_step_widths nth_list_update less_Suc_eq numeral_2_eq_2)
qed

lemma cfg_32_buffers:
  "halo_xz_buffer (initLoadStore cfg_32 (initial_state cfg_32 mem0)) = [1, 3]"
  "halo_yz_buffer (initLoadStore cfg_32 (initial_state cfg_32 mem0)) = [2, 4]"
  by (simp_all add: initLoadStore_def init_buffers_def BOT_to_TOP init_buffers_step_def
      init_widths_alt set_widths_def initial_state_def cfg_32_def mem0_def malloc_def fresh_addr_def Let_def)

lemma state_32_widths:
  "halo_widths_x state_32 = [4, 3, 7]"
  "halo_widths_y state_32 = [3, 3, 6]"
  "halo_widths_z state_32 = [3, 4, 7]"
  by (simp_all add: state_32_def initLoadStore_widths widened_def cfg_32_def)

lemma state_min_widths:
  "halo_widths_x state_min = [4, 4, 8]"
  "halo_widths_y state_min = [4, 4, 8]"
  "halo_widths_z state_min = [4, 4, 8]"
  by (simp_all add: state_min_def initLoadStore_widths widened_def cfg_min_def)

subsection \<open>The cells of a bulk copy\<close>






subsection \<open>The cells of the six load operations\<close>

lemmas load_defs =
  loadOuterHalos_def loadOuterFront_def loadOuterBack_def loadOuterTop_def loadOuterBot_def
  loadOuterLeft_def loadOuterRight_def



lemma initLoadStore_widths_nonneg:
  assumes "0 \<le> nghost cfg"
  shows "0 \<le> halo_widths_x (initLoadStore cfg (initial_state cfg h)) ! BOT"
        "0 \<le> halo_widths_x (initLoadStore cfg (initial_state cfg h)) ! TOP"
        "0 \<le> halo_widths_y (initLoadStore cfg (initial_state cfg h)) ! BOT"
        "0 \<le> halo_widths_y (initLoadStore cfg (initial_state cfg h)) ! TOP"
        "0 \<le> halo_widths_z (initLoadStore cfg (initial_state cfg h)) ! BOT"
        "0 \<le> halo_widths_z (initLoadStore cfg (initial_state cfg h)) ! TOP"
  using assms by (simp_all add: initLoadStore_widths widened_def)

lemma initLoadStore_widths_tot:
  "halo_widths_x (initLoadStore cfg (initial_state cfg h)) ! TOT =
     halo_widths_x (initLoadStore cfg (initial_state cfg h)) ! BOT +
     halo_widths_x (initLoadStore cfg (initial_state cfg h)) ! TOP"
  "halo_widths_y (initLoadStore cfg (initial_state cfg h)) ! TOT =
     halo_widths_y (initLoadStore cfg (initial_state cfg h)) ! BOT +
     halo_widths_y (initLoadStore cfg (initial_state cfg h)) ! TOP"
  "halo_widths_z (initLoadStore cfg (initial_state cfg h)) ! TOT =
     halo_widths_z (initLoadStore cfg (initial_state cfg h)) ! BOT +
     halo_widths_z (initLoadStore cfg (initial_state cfg h)) ! TOP"
  by (simp_all add: initLoadStore_widths)

lemmas store_defs =
  storeInnerHalos_def storeInnerFront_def storeInnerBack_def storeInnerTop_def storeInnerBot_def
  storeInnerLeft_def storeInnerRight_def

subsection \<open>Boxes with start before end\<close>

lemma boxes_nonempty_iff:
  assumes "pencil_geometry cfg" "0 < nx cfg" "0 \<le> nghost cfg"
    and "0 < halo_widths_x s ! BOT" "0 < halo_widths_x s ! TOP"
    and "0 < halo_widths_y s ! BOT" "0 < halo_widths_y s ! TOP"
    and "0 < halo_widths_z s ! BOT" "0 < halo_widths_z s ! TOP"
  shows "(\<forall>b \<in> set (concat (map call_boxes (loadOuterHalos cfg s mesh @ storeInnerHalos cfg s mesh))).
            box_nonempty b) \<longleftrightarrow>
         halo_widths_y s ! BOT + halo_widths_y s ! TOP < ny cfg \<and>
         halo_widths_z s ! BOT + halo_widths_z s ! TOP < nz cfg"
  using assms
  by (auto simp add: load_defs store_defs Let_def pencil_geometry_def)

lemma initLoadStore_widths_pos:
  assumes "0 < nghost cfg"
  shows "0 < halo_widths_x (initLoadStore cfg (initial_state cfg h)) ! BOT"
        "0 < halo_widths_x (initLoadStore cfg (initial_state cfg h)) ! TOP"
        "0 < halo_widths_y (initLoadStore cfg (initial_state cfg h)) ! BOT"
        "0 < halo_widths_y (initLoadStore cfg (initial_state cfg h)) ! TOP"
        "0 < halo_widths_z (initLoadStore cfg (initial_state cfg h)) ! BOT"
        "0 < halo_widths_z (initLoadStore cfg (initial_state cfg h)) ! TOP"
  using assms by (simp_all add: initLoadStore_widths widened_def)

subsection \<open>The allocator during initialisation and teardown\<close>

lemma fresh_addr_gt: "p \<in> fst ` set l \<Longrightarrow> p < fresh_addr l"
proof -
  assume "p \<in> fst ` set l"
  then have "p \<in> set (0 # map fst l)" by simp
  then have "p \<le> Max (set (0 # map fst l))" by (intro Max_ge) simp_all
  then show ?thesis by (simp add: fresh_addr_def)
qed

lemma fresh_addr_nonnull: "fresh_addr l \<noteq> NULL"
  by (simp add: fresh_addr_def)

lemma malloc_result:
  assumes "malloc h n = (p, h')" "p \<noteq> NULL"
  shows "p = fresh_addr (live h)"
    and "h' = h\<lparr>live := (p, n) # live h, capacity := capacity h - n\<rparr>"
  using assms by (auto simp: malloc_def split: if_splits)

lemma initLoadStore_initial:
  "initLoadStore cfg (initial_state cfg h) =
     (let w = init_widths cfg (initial_state cfg h);
          xz0 = mx cfg * nz cfg * halo_widths_y w ! 0 * NUM_VTXBUF_HANDLES cfg;
          yz0 = ny cfg * nz cfg * halo_widths_x w ! 0 * NUM_VTXBUF_HANDLES cfg;
          xz1 = mx cfg * nz cfg * halo_widths_y w ! 1 * NUM_VTXBUF_HANDLES cfg;
          yz1 = ny cfg * nz cfg * halo_widths_x w ! 1 * NUM_VTXBUF_HANDLES cfg;
          (p1, h1) = malloc h (xz0 * sizeof_AcReal cfg);
          (p2, h2) = malloc h1 (yz0 * sizeof_AcReal cfg);
          (p3, h3) = malloc h2 (xz1 * sizeof_AcReal cfg);
          (p4, h4) = malloc h3 (yz1 * sizeof_AcReal cfg)
      in w\<lparr>halo_xz_size := [xz0, xz1], halo_yz_size := [yz0, yz1],
           halo_xz_buffer := [p1, p3], halo_yz_buffer := [p2, p4], mem := h4\<rparr>)"
  by (simp add: initLoadStore_def init_buffers_def BOT_to_TOP init_buffers_step_def
      init_widths_alt initial_state_def Let_def case_prod_beta)

lemma initLoadStore_allocated:
  assumes s: "s = initLoadStore cfg (initial_state cfg h)" and alloc: "buffers_allocated s"
  obtains p1 p2 p3 p4 where
    "halo_xz_buffer s = [p1, p3]" "halo_yz_buffer s = [p2, p4]"
    "mem s = h\<lparr>live := [(p4, halo_yz_size s ! 1 * sizeof_AcReal cfg),
                       (p3, halo_xz_size s ! 1 * sizeof_AcReal cfg),
                       (p2, halo_yz_size s ! 0 * sizeof_AcReal cfg),
                       (p1, halo_xz_size s ! 0 * sizeof_AcReal cfg)] @ live h,
              capacity := capacity h - halo_xz_size s ! 0 * sizeof_AcReal cfg
                            - halo_yz_size s ! 0 * sizeof_AcReal cfg
                            - halo_xz_size s ! 1 * sizeof_AcReal cfg
                            - halo_yz_size s ! 1 * sizeof_AcReal cfg\<rparr>"
    "distinct [p1, p2, p3, p4]"
    "p1 \<noteq> NULL" "p2 \<noteq> NULL" "p3 \<noteq> NULL" "p4 \<noteq> NULL"
    "p1 \<notin> fst ` set (live h)" "p2 \<notin> fst ` set (live h)"
    "p3 \<notin> fst ` set (live h)" "p4 \<notin> fst ` set (live h)"
proof -
  define w where "w = init_widths cfg (initial_state cfg h)"
  define a1 where "a1 = mx cfg * nz cfg * halo_widths_y w ! 0 * NUM_VTXBUF_HANDLES cfg"
  define a2 where "a2 = ny cfg * nz cfg * halo_widths_x w ! 0 * NUM_VTXBUF_HANDLES cfg"
  define a3 where "a3 = mx cfg * nz cfg * halo_widths_y w ! Suc 0 * NUM_VTXBUF_HANDLES cfg"
  define a4 where "a4 = ny cfg * nz cfg * halo_widths_x w ! Suc 0 * NUM_VTXBUF_HANDLES cfg"
  obtain p1 h1 where m1: "malloc h (a1 * sizeof_AcReal cfg) = (p1, h1)"
    by (cases "malloc h (a1 * sizeof_AcReal cfg)")
  obtain p2 h2 where m2: "malloc h1 (a2 * sizeof_AcReal cfg) = (p2, h2)"
    by (cases "malloc h1 (a2 * sizeof_AcReal cfg)")
  obtain p3 h3 where m3: "malloc h2 (a3 * sizeof_AcReal cfg) = (p3, h3)"
    by (cases "malloc h2 (a3 * sizeof_AcReal cfg)")
  obtain p4 h4 where m4: "malloc h3 (a4 * sizeof_AcReal cfg) = (p4, h4)"
    by (cases "malloc h3 (a4 * sizeof_AcReal cfg)")
  have s_eq: "s = w\<lparr>halo_xz_size := [a1, a3], halo_yz_size := [a2, a4],
      halo_xz_buffer := [p1, p3], halo_yz_buffer := [p2, p4], mem := h4\<rparr>"
    unfolding s initLoadStore_initial
    by (simp add: Let_def w_def [symmetric] a1_def [symmetric] a2_def [symmetric]
        a3_def [symmetric] a4_def [symmetric] m1 m2 m3 m4)
  have nn: "p1 \<noteq> NULL" "p2 \<noteq> NULL" "p3 \<noteq> NULL" "p4 \<noteq> NULL"
    using alloc by (simp_all add: buffers_allocated_def s_eq)
  note r1 = malloc_result [OF m1 nn(1)]
  note r2 = malloc_result [OF m2 nn(2)]
  note r3 = malloc_result [OF m3 nn(3)]
  note r4 = malloc_result [OF m4 nn(4)]
  have l1: "live h1 = (p1, a1 * sizeof_AcReal cfg) # live h"
    by (subst r1(2)) simp
  have l2: "live h2 = (p2, a2 * sizeof_AcReal cfg) # live h1"
    by (subst r2(2)) simp
  have l3: "live h3 = (p3, a3 * sizeof_AcReal cfg) # live h2"
    by (subst r3(2)) simp
  have gt1: "q < p1" if "q \<in> fst ` set (live h)" for q
    using that fresh_addr_gt [of q "live h"] by (simp add: r1(1))
  have gt2: "q < p2" if "q \<in> fst ` set (live h1)" for q
    using that fresh_addr_gt [of q "live h1"] by (simp add: r2(1))
  have gt3: "q < p3" if "q \<in> fst ` set (live h2)" for q
    using that fresh_addr_gt [of q "live h2"] by (simp add: r3(1))
  have gt4: "q < p4" if "q \<in> fst ` set (live h3)" for q
    using that fresh_addr_gt [of q "live h3"] by (simp add: r4(1))
  have order: "p1 < p2" "p2 < p3" "p3 < p4"
    using gt2 [of p1] gt3 [of p2] gt4 [of p3] by (simp_all add: l1 l2 l3)
  have old: "q < p1 \<and> q < p2 \<and> q < p3 \<and> q < p4" if "q \<in> fst ` set (live h)" for q
    using gt1 [OF that] order by simp
  have mem_eq: "mem s = h\<lparr>live := [(p4, halo_yz_size s ! 1 * sizeof_AcReal cfg),
                       (p3, halo_xz_size s ! 1 * sizeof_AcReal cfg),
                       (p2, halo_yz_size s ! 0 * sizeof_AcReal cfg),
                       (p1, halo_xz_size s ! 0 * sizeof_AcReal cfg)] @ live h,
              capacity := capacity h - halo_xz_size s ! 0 * sizeof_AcReal cfg
                            - halo_yz_size s ! 0 * sizeof_AcReal cfg
                            - halo_xz_size s ! 1 * sizeof_AcReal cfg
                            - halo_yz_size s ! 1 * sizeof_AcReal cfg\<rparr>"
    by (simp add: s_eq r4(2) r3(2) r2(2) r1(2))
  show ?thesis
  proof (rule that [of p1 p3 p2 p4])
    show "halo_xz_buffer s = [p1, p3]" "halo_yz_buffer s = [p2, p4]"
      by (simp_all add: s_eq)
    show "mem s = h\<lparr>live := [(p4, halo_yz_size s ! 1 * sizeof_AcReal cfg),
                       (p3, halo_xz_size s ! 1 * sizeof_AcReal cfg),
                       (p2, halo_yz_size s ! 0 * sizeof_AcReal cfg),
                       (p1, halo_xz_size s ! 0 * sizeof_AcReal cfg)] @ live h,
              capacity := capacity h - halo_xz_size s ! 0 * sizeof_AcReal cfg
                            - halo_yz_size s ! 0 * sizeof_AcReal cfg
                            - halo_xz_size s ! 1 * sizeof_AcReal cfg
                            - halo_yz_size s ! 1 * sizeof_AcReal cfg\<rparr>"
      by (rule mem_eq)
    show "distinct [p1, p2, p3, p4]"
      using order by simp
    show "p1 \<noteq> NULL" "p2 \<noteq> NULL" "p3 \<noteq> NULL" "p4 \<noteq> NULL"
      by (rule nn)+
    show "p1 \<notin> fst ` set (live h)" "p2 \<notin> fst ` set (live h)"
      "p3 \<notin> fst ` set (live h)" "p4 \<notin> fst ` set (live h)"
      using old by blast+
  qed
qed

lemma filter_absent: "p \<notin> fst ` set l \<Longrightarrow> filter (\<lambda>b. fst b \<noteq> p) l = l"
  by (induction l) auto

lemma map_of_absent: "p \<notin> fst ` set l \<Longrightarrow> map_of l p = None"
  by (simp add: map_of_eq_None_iff)

lemma free_live:
  assumes "p \<noteq> NULL" "map_of (live m) p = Some n"
  shows "free m p = Inr (m\<lparr>live := filter (\<lambda>b. fst b \<noteq> p) (live m), capacity := capacity m + n\<rparr>)"
  using assms by (simp add: free_def)

lemma free_released:
  assumes "p \<noteq> NULL" "p \<notin> fst ` set (live m)"
  shows "free m p = Inl (InvalidFree p)"
  using assms by (simp add: free_def map_of_absent)

lemma finalLoadStore_after_init:
  assumes s: "s = initLoadStore cfg (initial_state cfg h)" and alloc: "buffers_allocated s"
  shows "finalLoadStore s = Inr (s\<lparr>mem := h\<rparr>)"
    and "finalLoadStore (s\<lparr>mem := h\<rparr>) = Inl (InvalidFree (halo_xz_buffer s ! BOT))"
proof -
  obtain p1 p2 p3 p4 where
    xz: "halo_xz_buffer s = [p1, p3]" and yz: "halo_yz_buffer s = [p2, p4]"
    and mem_s: "mem s = h\<lparr>live := [(p4, halo_yz_size s ! 1 * sizeof_AcReal cfg),
                       (p3, halo_xz_size s ! 1 * sizeof_AcReal cfg),
                       (p2, halo_yz_size s ! 0 * sizeof_AcReal cfg),
                       (p1, halo_xz_size s ! 0 * sizeof_AcReal cfg)] @ live h,
              capacity := capacity h - halo_xz_size s ! 0 * sizeof_AcReal cfg
                            - halo_yz_size s ! 0 * sizeof_AcReal cfg
                            - halo_xz_size s ! 1 * sizeof_AcReal cfg
                            - halo_yz_size s ! 1 * sizeof_AcReal cfg\<rparr>"
    and dist: "distinct [p1, p2, p3, p4]"
    and nn: "p1 \<noteq> NULL" "p2 \<noteq> NULL" "p3 \<noteq> NULL" "p4 \<noteq> NULL"
    and old: "p1 \<notin> fst ` set (live h)" "p2 \<notin> fst ` set (live h)"
      "p3 \<notin> fst ` set (live h)" "p4 \<notin> fst ` set (live h)"
    by (rule initLoadStore_allocated [OF assms])
  define a1 where "a1 = halo_xz_size s ! 0 * sizeof_AcReal cfg"
  define a2 where "a2 = halo_yz_size s ! 0 * sizeof_AcReal cfg"
  define a3 where "a3 = halo_xz_size s ! 1 * sizeof_AcReal cfg"
  define a4 where "a4 = halo_yz_size s ! 1 * sizeof_AcReal cfg"
  note mem = mem_s [folded a1_def a2_def a3_def a4_def]
  have neq: "p1 \<noteq> p2" "p1 \<noteq> p3" "p1 \<noteq> p4" "p2 \<noteq> p3" "p2 \<noteq> p4" "p3 \<noteq> p4"
    "p2 \<noteq> p1" "p3 \<noteq> p1" "p4 \<noteq> p1" "p3 \<noteq> p2" "p4 \<noteq> p2" "p4 \<noteq> p3"
    using dist by auto
  define M0 where "M0 = mem s"
  have L0: "live M0 = [(p4, a4), (p3, a3), (p2, a2), (p1, a1)] @ live h"
    and C0: "capacity M0 = capacity h - a1 - a2 - a3 - a4"
    and R0: "memory.more M0 = memory.more h"
    by (simp_all add: M0_def mem)
  define M1 where "M1 = M0\<lparr>live := filter (\<lambda>b. fst b \<noteq> p1) (live M0), capacity := capacity M0 + a1\<rparr>"
  have f1: "free M0 p1 = Inr M1"
    unfolding M1_def by (rule free_live [OF nn(1)]) (simp add: L0 neq)
  have L1: "live M1 = [(p4, a4), (p3, a3), (p2, a2)] @ live h"
    by (simp add: M1_def L0 neq filter_absent [OF old(1)])
  define M2 where "M2 = M1\<lparr>live := filter (\<lambda>b. fst b \<noteq> p2) (live M1), capacity := capacity M1 + a2\<rparr>"
  have f2: "free M1 p2 = Inr M2"
    unfolding M2_def by (rule free_live [OF nn(2)]) (simp add: L1 neq)
  have L2: "live M2 = [(p4, a4), (p3, a3)] @ live h"
    by (simp add: M2_def L1 neq filter_absent [OF old(2)])
  define M3 where "M3 = M2\<lparr>live := filter (\<lambda>b. fst b \<noteq> p3) (live M2), capacity := capacity M2 + a3\<rparr>"
  have f3: "free M2 p3 = Inr M3"
    unfolding M3_def by (rule free_live [OF nn(3)]) (simp add: L2 neq)
  have L3: "live M3 = [(p4, a4)] @ live h"
    by (simp add: M3_def L2 neq filter_absent [OF old(3)])
  define M4 where "M4 = M3\<lparr>live := filter (\<lambda>b. fst b \<noteq> p4) (live M3), capacity := capacity M3 + a4\<rparr>"
  have f4: "free M3 p4 = Inr M4"
    unfolding M4_def by (rule free_live [OF nn(4)]) (simp add: L3)
  have L4: "live M4 = live h"
    by (simp add: M4_def L3 filter_absent [OF old(4)])
  have C4: "capacity M4 = capacity h"
    by (simp add: M4_def M3_def M2_def M1_def C0)
  have R4: "memory.more M4 = memory.more h"
    by (simp add: M4_def M3_def M2_def M1_def R0)
  have M4: "M4 = h"
    using L4 C4 R4 by (rule memory.equality)
  have step0: "final_step 0 s = Inr (s\<lparr>mem := M2\<rparr>)"
    by (simp add: final_step_def xz yz M0_def [symmetric] f1 f2)
  have step1: "final_step (Suc 0) (s\<lparr>mem := M2\<rparr>) = Inr (s\<lparr>mem := M4\<rparr>)"
    by (simp add: final_step_def xz yz f3 f4)
  show "finalLoadStore s = Inr (s\<lparr>mem := h\<rparr>)"
    by (simp add: finalLoadStore_def BOT_to_TOP step0 step1 M4)
  have "final_step 0 (s\<lparr>mem := h\<rparr>) = Inl (InvalidFree p1)"
    by (simp add: final_step_def xz free_released [OF nn(1) old(1)])
  then show "finalLoadStore (s\<lparr>mem := h\<rparr>) = Inl (InvalidFree (halo_xz_buffer s ! BOT))"
    by (simp add: finalLoadStore_def BOT_to_TOP xz)
qed

subsection \<open>The boxes of the six store operations\<close>

lemma store_calls:
  "storeInnerFront cfg s mesh st =
     [AcNodeStoreIXYPlate st (l1 cfg - 1, m1 cfg - 1, n1 cfg - 1)
        (l2 cfg, m2 cfg, n1 cfg + halo_widths_z s ! BOT - 1) mesh BOT]"
  "storeInnerBack cfg s mesh st =
     [AcNodeStoreIXYPlate st (l1 cfg - 1, m1 cfg - 1, n2 cfg - halo_widths_z s ! TOP)
        (l2 cfg, m2 cfg, n2 cfg) mesh TOP]"
  "storeInnerBot cfg s mesh st =
     [AcNodeStorePlate st (l1 cfg - 1, m1 cfg - 1, n1 cfg + halo_widths_z s ! BOT - 1)
        (l2 cfg, m1 cfg + halo_widths_y s ! BOT - 1, n2 cfg - halo_widths_z s ! TOP)
        mesh (halo_xz_buffer s ! BOT) AC_XZ]"
  "storeInnerTop cfg s mesh st =
     [AcNodeStorePlate st (l1 cfg - 1, m2 cfg - halo_widths_y s ! TOP, n1 cfg + halo_widths_z s ! BOT - 1)
        (l2 cfg, m2 cfg, n2 cfg - halo_widths_z s ! TOP)
        mesh (halo_xz_buffer s ! TOP) AC_XZ]"
  "storeInnerLeft cfg s mesh st =
     [AcNodeStorePlate st
        (l1 cfg - 1, m1 cfg + halo_widths_y s ! BOT - 1, n1 cfg + halo_widths_z s ! BOT - 1)
        (l1 cfg + halo_widths_x s ! BOT - 1, m2 cfg - halo_widths_y s ! TOP, n2 cfg - halo_widths_z s ! TOP)
        mesh (halo_yz_buffer s ! BOT) AC_YZ]"
  "storeInnerRight cfg s mesh st =
     [AcNodeStorePlate st
        (l2 cfg - halo_widths_x s ! TOP, m1 cfg + halo_widths_y s ! BOT - 1, n1 cfg + halo_widths_z s ! BOT - 1)
        (l2 cfg, m2 cfg - halo_widths_y s ! TOP, n2 cfg - halo_widths_z s ! TOP)
        mesh (halo_yz_buffer s ! TOP) AC_YZ]"
  by (simp_all add: store_defs Let_def)

lemma store_boxes_interior:
  assumes "pencil_geometry cfg"
    and "0 \<le> halo_widths_x s ! BOT" "halo_widths_x s ! BOT \<le> nx cfg"
    and "0 \<le> halo_widths_x s ! TOP" "halo_widths_x s ! TOP \<le> nx cfg"
    and "0 \<le> halo_widths_y s ! BOT" "halo_widths_y s ! BOT \<le> ny cfg"
    and "0 \<le> halo_widths_y s ! TOP" "halo_widths_y s ! TOP \<le> ny cfg"
    and "0 \<le> halo_widths_z s ! BOT" "halo_widths_z s ! BOT \<le> nz cfg"
    and "0 \<le> halo_widths_z s ! TOP" "halo_widths_z s ! TOP \<le> nz cfg"
    and "k \<in> set (storeInnerHalos cfg s mesh)" "covers cfg k (x, y, z)"
  shows "in_interior cfg (x, y, z)"
  using assms
  by (auto simp add: storeInnerHalos_def store_calls pencil_geometry_def)

lemma state_32_buffers:
  "halo_xz_buffer state_32 = [1, 3]" "halo_yz_buffer state_32 = [2, 4]"
  by (simp_all add: state_32_def cfg_32_buffers)

lemma initLoadStore_distinct_buffers:
  assumes "s = initLoadStore cfg (initial_state cfg h)" "buffers_allocated s"
  shows "distinct [halo_xz_buffer s ! BOT, halo_xz_buffer s ! TOP,
                   halo_yz_buffer s ! BOT, halo_yz_buffer s ! TOP]"
proof -
  obtain p1 p2 p3 p4 where
    xz: "halo_xz_buffer s = [p1, p3]" and yz: "halo_yz_buffer s = [p2, p4]"
    and mem_s: "mem s = h\<lparr>live := [(p4, halo_yz_size s ! 1 * sizeof_AcReal cfg),
                       (p3, halo_xz_size s ! 1 * sizeof_AcReal cfg),
                       (p2, halo_yz_size s ! 0 * sizeof_AcReal cfg),
                       (p1, halo_xz_size s ! 0 * sizeof_AcReal cfg)] @ live h,
              capacity := capacity h - halo_xz_size s ! 0 * sizeof_AcReal cfg
                            - halo_yz_size s ! 0 * sizeof_AcReal cfg
                            - halo_xz_size s ! 1 * sizeof_AcReal cfg
                            - halo_yz_size s ! 1 * sizeof_AcReal cfg\<rparr>"
    and dist: "distinct [p1, p2, p3, p4]"
    and nn: "p1 \<noteq> NULL" "p2 \<noteq> NULL" "p3 \<noteq> NULL" "p4 \<noteq> NULL"
    and old: "p1 \<notin> fst ` set (live h)" "p2 \<notin> fst ` set (live h)"
      "p3 \<notin> fst ` set (live h)" "p4 \<notin> fst ` set (live h)"
    by (rule initLoadStore_allocated [OF assms])
  from dist show ?thesis
    by (auto simp add: xz yz)
qed

subsection \<open>Plates and the sizes of their staging buffers\<close>











section \<open>The claims\<close>

subsection \<open>Halo widths\<close>

text \<open>
  C1. Started from the static initialisers, \<^verbatim>\<open>initLoadStore\<close> leaves every bottom and top
  width at \<open>nghost\<close>, except that on a non-periodic axis the bottom width is \<open>nghost + 1\<close>
  for the first subdomain and the top width is \<open>nghost + 1\<close> for the last one; for y and
  z this widening is skipped in yin-yang mode. Each total is bottom plus top.
\<close>

theorem initLoadStore_halo_widths:
  "(let s = initLoadStore cfg (initial_state cfg h) in
      halo_widths_x s ! BOT = (if \<not> lperi cfg ! 0 \<and> lfirst_proc_x cfg then nghost cfg + 1 else nghost cfg) \<and>
      halo_widths_x s ! TOP = (if \<not> lperi cfg ! 0 \<and> llast_proc_x cfg then nghost cfg + 1 else nghost cfg) \<and>
      halo_widths_y s ! BOT =
        (if \<not> lyinyang cfg \<and> \<not> lperi cfg ! 1 \<and> lfirst_proc_y cfg then nghost cfg + 1 else nghost cfg) \<and>
      halo_widths_y s ! TOP =
        (if \<not> lyinyang cfg \<and> \<not> lperi cfg ! 1 \<and> llast_proc_y cfg then nghost cfg + 1 else nghost cfg) \<and>
      halo_widths_z s ! BOT =
        (if \<not> lyinyang cfg \<and> \<not> lperi cfg ! 2 \<and> lfirst_proc_z cfg then nghost cfg + 1 else nghost cfg) \<and>
      halo_widths_z s ! TOP =
        (if \<not> lyinyang cfg \<and> \<not> lperi cfg ! 2 \<and> llast_proc_z cfg then nghost cfg + 1 else nghost cfg) \<and>
      halo_widths_x s ! TOT = halo_widths_x s ! BOT + halo_widths_x s ! TOP \<and>
      halo_widths_y s ! TOT = halo_widths_y s ! BOT + halo_widths_y s ! TOP \<and>
      halo_widths_z s ! TOT = halo_widths_z s ! BOT + halo_widths_z s ! TOP)"
  by (simp add: Let_def initLoadStore_widths widened_def)

theorem initLoadStore_halo_widths_witness:
  "(let s = initLoadStore cfg_32 (initial_state cfg_32 mem0) in
      halo_widths_x s ! BOT = 4 \<and> halo_widths_x s ! TOP = 3 \<and> halo_widths_x s ! TOT = 7 \<and>
      halo_widths_y s ! BOT = 3 \<and> halo_widths_y s ! TOP = 3 \<and> halo_widths_y s ! TOT = 6 \<and>
      halo_widths_z s ! BOT = 3 \<and> halo_widths_z s ! TOP = 4 \<and> halo_widths_z s ! TOT = 7)"
  using initLoadStore_halo_widths [of cfg_32 mem0]
  by (simp add: Let_def cfg_32_def)

text \<open>
  C3, as stated, gives the widening rule for all three axes and every combination of
  periodicity and position flags. In yin-yang mode the code skips the rule for y and z:
  a first subdomain on a non-periodic y axis keeps the bottom width \<open>nghost = 3\<close>, where
  the claim asks for \<open>nghost + 1\<close>.
\<close>

theorem widths_rule_ignores_yinyang_counterexample:
  "lyinyang cfg_yinyang \<and> \<not> lperi cfg_yinyang ! 1 \<and> lfirst_proc_y cfg_yinyang \<and>
   nghost cfg_yinyang = 3 \<and>
   halo_widths_y (initLoadStore cfg_yinyang (initial_state cfg_yinyang mem0)) ! BOT = 3 \<and>
   halo_widths_y (initLoadStore cfg_yinyang (initial_state cfg_yinyang mem0)) ! BOT \<noteq>
     nghost cfg_yinyang + 1"
  by (simp add: initLoadStore_widths widened_def cfg_yinyang_def cfg_32_def)

text \<open>
  C3, amended. With the yin-yang mode off, bottom plus top equals the total on each
  axis, and each side's width is \<open>nghost\<close> unless its axis is non-periodic and the
  subdomain is first (bottom side) or last (top side) along it, where it is
  \<open>nghost + 1\<close>.
\<close>

theorem widths_rule_without_yinyang:
  assumes "\<not> lyinyang cfg"
  shows "(let s = initLoadStore cfg (initial_state cfg h) in
      halo_widths_x s ! BOT + halo_widths_x s ! TOP = halo_widths_x s ! TOT \<and>
      halo_widths_y s ! BOT + halo_widths_y s ! TOP = halo_widths_y s ! TOT \<and>
      halo_widths_z s ! BOT + halo_widths_z s ! TOP = halo_widths_z s ! TOT \<and>
      halo_widths_x s ! BOT = (if \<not> lperi cfg ! 0 \<and> lfirst_proc_x cfg then nghost cfg + 1 else nghost cfg) \<and>
      halo_widths_x s ! TOP = (if \<not> lperi cfg ! 0 \<and> llast_proc_x cfg then nghost cfg + 1 else nghost cfg) \<and>
      halo_widths_y s ! BOT = (if \<not> lperi cfg ! 1 \<and> lfirst_proc_y cfg then nghost cfg + 1 else nghost cfg) \<and>
      halo_widths_y s ! TOP = (if \<not> lperi cfg ! 1 \<and> llast_proc_y cfg then nghost cfg + 1 else nghost cfg) \<and>
      halo_widths_z s ! BOT = (if \<not> lperi cfg ! 2 \<and> lfirst_proc_z cfg then nghost cfg + 1 else nghost cfg) \<and>
      halo_widths_z s ! TOP = (if \<not> lperi cfg ! 2 \<and> llast_proc_z cfg then nghost cfg + 1 else nghost cfg))"
  using assms by (simp add: Let_def initLoadStore_widths widened_def)

theorem widths_rule_without_yinyang_witness:
  "\<not> lyinyang cfg_32 \<and>
   (let s = initLoadStore cfg_32 (initial_state cfg_32 mem0) in
      halo_widths_x s ! BOT + halo_widths_x s ! TOP = halo_widths_x s ! TOT \<and>
      halo_widths_y s ! BOT = 3 \<and> halo_widths_y s ! TOP = 3 \<and>
      halo_widths_z s ! BOT = 3 \<and> halo_widths_z s ! TOP = 4 \<and>
      halo_widths_x s ! BOT = 4 \<and> halo_widths_x s ! TOP = 3)"
proof -
  have off: "\<not> lyinyang cfg_32" by (simp add: cfg_32_def)
  show ?thesis
    using off widths_rule_without_yinyang [OF off, of mem0]
    by (simp add: Let_def cfg_32_def)
qed

subsection \<open>Initialisation twice\<close>

text \<open>
  C5. A second call of \<^verbatim>\<open>initLoadStore\<close> after a first one that left all four buffers
  allocated changes nothing: the null checks skip every \<^verbatim>\<open>malloc\<close>, so the four
  pointers and the allocator are the same, and the widths and sizes are recomputed to
  the values they have. The state after the second call is the state after the first.
\<close>

theorem initLoadStore_idempotent:
  assumes "arrays_ok s" and "buffers_allocated (initLoadStore cfg s)"
  shows "initLoadStore cfg (initLoadStore cfg s) = initLoadStore cfg s"
proof -
  let ?s1 = "initLoadStore cfg s"
  have ok1: "arrays_ok ?s1"
    by (rule initLoadStore_arrays_ok [OF assms(1)])
  have widths: "init_widths cfg ?s1 = ?s1"
    by (rule init_widths_fixed [OF assms(1)]) (simp_all add: initLoadStore_def init_buffers_widths)
  have step0: "init_buffers_step cfg 0 ?s1 = ?s1"
    using ok1 assms(2) initLoadStore_sizes [OF assms(1), of cfg 0]
    by (intro init_buffers_step_fixed) (simp_all add: arrays_ok_def buffers_allocated_def)
  have step1: "init_buffers_step cfg (Suc 0) ?s1 = ?s1"
    using ok1 assms(2) initLoadStore_sizes [OF assms(1), of cfg "Suc 0"]
    by (intro init_buffers_step_fixed) (simp_all add: arrays_ok_def buffers_allocated_def)
  have "initLoadStore cfg ?s1 = init_buffers cfg ?s1"
    by (subst (1) initLoadStore_def) (simp add: widths)
  also have "\<dots> = ?s1"
    by (simp add: init_buffers_def BOT_to_TOP step0 step1)
  finally show ?thesis .
qed

theorem initLoadStore_idempotent_witness:
  "arrays_ok (initial_state cfg_32 mem0) \<and>
   buffers_allocated (initLoadStore cfg_32 (initial_state cfg_32 mem0)) \<and>
   initLoadStore cfg_32 (initLoadStore cfg_32 (initial_state cfg_32 mem0)) =
     initLoadStore cfg_32 (initial_state cfg_32 mem0) \<and>
   halo_xz_buffer (initLoadStore cfg_32 (initLoadStore cfg_32 (initial_state cfg_32 mem0))) = [1, 3] \<and>
   halo_yz_buffer (initLoadStore cfg_32 (initLoadStore cfg_32 (initial_state cfg_32 mem0))) = [2, 4]"
proof -
  have a: "arrays_ok (initial_state cfg_32 mem0)"
    by (simp add: arrays_ok_def initial_state_def)
  have b: "buffers_allocated (initLoadStore cfg_32 (initial_state cfg_32 mem0))"
    by (simp add: buffers_allocated_def cfg_32_buffers)
  show ?thesis
    using a b initLoadStore_idempotent [OF a b] by (simp add: cfg_32_buffers)
qed

subsection \<open>The direct copies of the front and back faces\<close>



subsection \<open>The streams of the batch drivers\<close>

text \<open>
  C8. \<^verbatim>\<open>loadOuterHalos\<close> issues the six load operations, all on \<^verbatim>\<open>STREAM_DEFAULT\<close>;
  \<^verbatim>\<open>storeInnerHalos\<close> issues the six store operations on six different streams, one
  for each direction.
\<close>

theorem batch_driver_streams:
  "loadOuterHalos cfg s mesh =
     loadOuterFront cfg s mesh STREAM_DEFAULT @ loadOuterBack cfg s mesh STREAM_DEFAULT @
     loadOuterTop cfg s mesh STREAM_DEFAULT @ loadOuterBot cfg s mesh STREAM_DEFAULT @
     loadOuterLeft cfg s mesh STREAM_DEFAULT @ loadOuterRight cfg s mesh STREAM_DEFAULT \<and>
   map call_stream (loadOuterHalos cfg s mesh) = replicate 6 STREAM_DEFAULT \<and>
   storeInnerHalos cfg s mesh =
     storeInnerLeft cfg s mesh STREAM_4 @ storeInnerRight cfg s mesh STREAM_5 @
     storeInnerBot cfg s mesh STREAM_2 @ storeInnerTop cfg s mesh STREAM_3 @
     storeInnerFront cfg s mesh STREAM_6 @ storeInnerBack cfg s mesh STREAM_1 \<and>
   map call_stream (storeInnerHalos cfg s mesh) =
     [STREAM_4, STREAM_5, STREAM_2, STREAM_3, STREAM_6, STREAM_1] \<and>
   distinct (map call_stream (storeInnerHalos cfg s mesh)) \<and>
   length (storeInnerHalos cfg s mesh) = 6"
  by (simp add: loadOuterHalos_def storeInnerHalos_def
      loadOuterFront_def loadOuterBack_def loadOuterTop_def loadOuterBot_def
      loadOuterLeft_def loadOuterRight_def
      storeInnerFront_def storeInnerBack_def storeInnerTop_def storeInnerBot_def
      storeInnerLeft_def storeInnerRight_def Let_def numeral_eq_Suc)

theorem batch_driver_streams_witness:
  "map call_stream (loadOuterHalos cfg_32 (initLoadStore cfg_32 (initial_state cfg_32 mem0)) ()) =
     [STREAM_DEFAULT, STREAM_DEFAULT, STREAM_DEFAULT, STREAM_DEFAULT, STREAM_DEFAULT, STREAM_DEFAULT] \<and>
   map call_stream (storeInnerHalos cfg_32 (initLoadStore cfg_32 (initial_state cfg_32 mem0)) ()) =
     [STREAM_4, STREAM_5, STREAM_2, STREAM_3, STREAM_6, STREAM_1]"
proof -
  note drv = batch_driver_streams [of cfg_32 "initLoadStore cfg_32 (initial_state cfg_32 mem0)" "()"]
  from drv have "map call_stream (loadOuterHalos cfg_32 (initLoadStore cfg_32 (initial_state cfg_32 mem0)) ()) =
      replicate 6 STREAM_DEFAULT"
    by blast
  moreover from drv have "map call_stream (storeInnerHalos cfg_32 (initLoadStore cfg_32 (initial_state cfg_32 mem0)) ()) =
     [STREAM_4, STREAM_5, STREAM_2, STREAM_3, STREAM_6, STREAM_1]"
    by blast
  ultimately show ?thesis
    by (simp add: numeral_eq_Suc)
qed

subsection \<open>The load operations and the halo shell\<close>




subsection \<open>Boxes with start before end\<close>

text \<open>
  C4, as stated, holds for all positive \<open>nx\<close>, \<open>ny\<close>, \<open>nz\<close> and \<open>nghost\<close>. On the smallest
  subdomain with the widest halos \<^verbatim>\<open>loadOuterBot\<close> builds a box from \<open>z = 4\<close> to \<open>z = 3\<close>
  and \<^verbatim>\<open>storeInnerBot\<close> one from \<open>z = 7\<close> to \<open>z = 0\<close>.
\<close>

theorem box_start_before_end_counterexample:
  "0 < nghost cfg_min \<and> 0 < nx cfg_min \<and> 0 < ny cfg_min \<and> 0 < nz cfg_min \<and>
   pencil_geometry cfg_min \<and>
   concat (map call_boxes (loadOuterBot cfg_min state_min () STREAM_DEFAULT)) = [((0, 0, 4), (7, 4, 3))] \<and>
   \<not> box_nonempty ((0, 0, 4), (7, 4, 3)) \<and>
   concat (map call_boxes (storeInnerBot cfg_min state_min () STREAM_2)) = [((3, 3, 7), (4, 7, 0))] \<and>
   \<not> box_nonempty ((3, 3, 7), (4, 7, 0))"
  by (simp add: loadOuterBot_def storeInnerBot_def state_min_widths pencil_geometry_def cfg_min_def)

text \<open>
  C4, amended. For positive \<open>nghost\<close> and \<open>nx\<close> and widths initialised by
  \<^verbatim>\<open>initLoadStore\<close>, every box built by the load and store operations has start before
  end on all three axes exactly when the interior extents \<open>ny\<close> and \<open>nz\<close> exceed the
  total halo widths of their axes.
\<close>

theorem boxes_start_before_end:
  assumes "pencil_geometry cfg" "0 < nghost cfg" "0 < nx cfg"
    and "s = initLoadStore cfg (initial_state cfg h)"
  shows "(\<forall>b \<in> set (concat (map call_boxes (loadOuterHalos cfg s mesh @ storeInnerHalos cfg s mesh))).
            box_nonempty b) \<longleftrightarrow>
         halo_widths_y s ! TOT < ny cfg \<and> halo_widths_z s ! TOT < nz cfg"
  unfolding assms(4) initLoadStore_widths_tot
  using assms(2)
  by (intro boxes_nonempty_iff [OF assms(1,3) _ initLoadStore_widths_pos [OF assms(2)]]) simp

theorem boxes_start_before_end_witness:
  "pencil_geometry cfg_32 \<and> 0 < nghost cfg_32 \<and> 0 < nx cfg_32 \<and>
   halo_widths_y state_32 ! TOT < ny cfg_32 \<and> halo_widths_z state_32 ! TOT < nz cfg_32 \<and>
   list_all box_nonempty
     (concat (map call_boxes (loadOuterHalos cfg_32 state_32 () @ storeInnerHalos cfg_32 state_32 ())))"
proof -
  have g: "pencil_geometry cfg_32" and n: "0 < nghost cfg_32" and x: "0 < nx cfg_32"
    by (simp_all add: pencil_geometry_def cfg_32_def)
  have yz: "halo_widths_y state_32 ! TOT < ny cfg_32 \<and> halo_widths_z state_32 ! TOT < nz cfg_32"
    by (simp add: state_32_widths cfg_32_def)
  with boxes_start_before_end [OF g n x state_32_def, of "()"]
  have "\<forall>b \<in> set (concat (map call_boxes
      (loadOuterHalos cfg_32 state_32 () @ storeInnerHalos cfg_32 state_32 ()))). box_nonempty b"
    by blast
  then have "list_all box_nonempty
     (concat (map call_boxes (loadOuterHalos cfg_32 state_32 () @ storeInnerHalos cfg_32 state_32 ())))"
    by (simp only: list_all_iff)
  with g n x yz show ?thesis
    by blast
qed

subsection \<open>Teardown twice\<close>

text \<open>
  C9, as stated, makes a second \<^verbatim>\<open>finalLoadStore\<close> in a row either a detected error or,
  the pointers being null after the first, a no-op without a second release. The code
  does neither: after the first call on the initialised 32-cubed subdomain the four
  pointers still hold the addresses 1, 3, 2 and 4, none of them a live block any more,
  and the second call hands the first of them to \<^verbatim>\<open>free\<close> again.
\<close>

theorem finalLoadStore_twice_counterexample:
  "buffers_allocated state_32 \<and>
   finalLoadStore state_32 = Inr (state_32\<lparr>mem := mem0\<rparr>) \<and>
   halo_xz_buffer (state_32\<lparr>mem := mem0\<rparr>) = [1, 3] \<and>
   halo_yz_buffer (state_32\<lparr>mem := mem0\<rparr>) = [2, 4] \<and>
   live (mem (state_32\<lparr>mem := mem0\<rparr>)) = [] \<and>
   finalLoadStore (state_32\<lparr>mem := mem0\<rparr>) = Inl (InvalidFree 1)"
proof -
  have a: "buffers_allocated state_32"
    by (simp add: buffers_allocated_def state_32_def cfg_32_buffers)
  have b: "halo_xz_buffer state_32 = [1, 3]" "halo_yz_buffer state_32 = [2, 4]"
    by (simp_all add: state_32_def cfg_32_buffers)
  note fin = finalLoadStore_after_init [OF state_32_def a]
  show ?thesis
    using a fin by (simp add: b mem0_def)
qed

text \<open>
  C9, amended. After an initialisation that allocated all four staging buffers, one call
  of \<^verbatim>\<open>finalLoadStore\<close> releases each of the four buffers once (the allocator is back in
  its state before the initialisation) and leaves the four pointers as they are, not
  null. The operation is not idempotent and detects nothing: a second call in a row
  passes the released pointer \<^verbatim>\<open>halo_xz_buffer[BOT]\<close> to \<^verbatim>\<open>free\<close> again, a double release.
\<close>

theorem finalLoadStore_releases_once:
  assumes "s = initLoadStore cfg (initial_state cfg h)" and "buffers_allocated s"
  shows "finalLoadStore s = Inr (s\<lparr>mem := h\<rparr>) \<and>
         buffers_allocated (s\<lparr>mem := h\<rparr>) \<and>
         finalLoadStore (s\<lparr>mem := h\<rparr>) = Inl (InvalidFree (halo_xz_buffer s ! BOT))"
  using assms(2) finalLoadStore_after_init [OF assms]
  by (simp add: buffers_allocated_def)

theorem finalLoadStore_releases_once_witness:
  "buffers_allocated state_32 \<and>
   finalLoadStore state_32 = Inr (state_32\<lparr>mem := mem0\<rparr>) \<and>
   buffers_allocated (state_32\<lparr>mem := mem0\<rparr>) \<and>
   finalLoadStore (state_32\<lparr>mem := mem0\<rparr>) = Inl (InvalidFree (halo_xz_buffer state_32 ! BOT))"
proof -
  have a: "buffers_allocated state_32"
    by (simp add: buffers_allocated_def state_32_def cfg_32_buffers)
  show ?thesis
    using a finalLoadStore_releases_once [OF state_32_def a] by simp
qed

subsection \<open>The store operations\<close>

text \<open>
  C7, as stated, places every store box inside the interior \<open>l1..l2\<close>, \<open>m1..m2\<close>,
  \<open>n1..n2\<close>. On the smallest subdomain the interior is the single cell \<open>(3, 3, 3)\<close>,
  and the box of \<^verbatim>\<open>storeInnerFront\<close>, four planes deep, reaches the cell \<open>(3, 3, 4)\<close> in
  the upper ghost layers.
\<close>

theorem store_front_leaves_interior_counterexample:
  "storeInnerFront cfg_min state_min () STREAM_6 =
     [AcNodeStoreIXYPlate STREAM_6 (3, 3, 3) (4, 4, 7) () BOT] \<and>
   covers cfg_min (AcNodeStoreIXYPlate STREAM_6 (3, 3, 3) (4, 4, 7) () BOT) (3, 3, 4) \<and>
   \<not> in_interior cfg_min (3, 3, 4) \<and>
   pencil_geometry cfg_min"
  by (simp add: storeInnerFront_def state_min_widths pencil_geometry_def cfg_min_def Let_def)

text \<open>
  C7, amended. Where no side's halo width exceeds the interior extent of its axis, every
  box of a store operation lies within the interior region of the 1-based indices
  \<open>l1..l2\<close>, \<open>m1..m2\<close>, \<open>n1..n2\<close> (0-based, start inclusive and end exclusive: end is the
  last index plus one). \<^verbatim>\<open>storeInnerFront\<close> and \<^verbatim>\<open>storeInnerBack\<close> call the inner-plane
  primitive with the side tags \<^verbatim>\<open>BOT\<close> and \<^verbatim>\<open>TOP\<close>; the other four call the staged-plate
  primitive, each with a buffer of its own: the four pointers are pairwise distinct
  once they are allocated.
\<close>

theorem store_targets_interior:
  assumes "pencil_geometry cfg" "0 \<le> nghost cfg"
    and "s = initLoadStore cfg (initial_state cfg h)"
    and "halo_widths_x s ! BOT \<le> nx cfg" "halo_widths_x s ! TOP \<le> nx cfg"
    and "halo_widths_y s ! BOT \<le> ny cfg" "halo_widths_y s ! TOP \<le> ny cfg"
    and "halo_widths_z s ! BOT \<le> nz cfg" "halo_widths_z s ! TOP \<le> nz cfg"
  shows "(\<forall>k \<in> set (storeInnerHalos cfg s mesh). \<forall>c. covers cfg k c \<longrightarrow> in_interior cfg c) \<and>
    storeInnerFront cfg s mesh st =
      [AcNodeStoreIXYPlate st (l1 cfg - 1, m1 cfg - 1, n1 cfg - 1)
         (l2 cfg, m2 cfg, n1 cfg + halo_widths_z s ! BOT - 1) mesh BOT] \<and>
    storeInnerBack cfg s mesh st =
      [AcNodeStoreIXYPlate st (l1 cfg - 1, m1 cfg - 1, n2 cfg - halo_widths_z s ! TOP)
         (l2 cfg, m2 cfg, n2 cfg) mesh TOP] \<and>
    storeInnerBot cfg s mesh st =
      [AcNodeStorePlate st (l1 cfg - 1, m1 cfg - 1, n1 cfg + halo_widths_z s ! BOT - 1)
         (l2 cfg, m1 cfg + halo_widths_y s ! BOT - 1, n2 cfg - halo_widths_z s ! TOP)
         mesh (halo_xz_buffer s ! BOT) AC_XZ] \<and>
    storeInnerTop cfg s mesh st =
      [AcNodeStorePlate st (l1 cfg - 1, m2 cfg - halo_widths_y s ! TOP, n1 cfg + halo_widths_z s ! BOT - 1)
         (l2 cfg, m2 cfg, n2 cfg - halo_widths_z s ! TOP)
         mesh (halo_xz_buffer s ! TOP) AC_XZ] \<and>
    storeInnerLeft cfg s mesh st =
      [AcNodeStorePlate st
         (l1 cfg - 1, m1 cfg + halo_widths_y s ! BOT - 1, n1 cfg + halo_widths_z s ! BOT - 1)
         (l1 cfg + halo_widths_x s ! BOT - 1, m2 cfg - halo_widths_y s ! TOP, n2 cfg - halo_widths_z s ! TOP)
         mesh (halo_yz_buffer s ! BOT) AC_YZ] \<and>
    storeInnerRight cfg s mesh st =
      [AcNodeStorePlate st
         (l2 cfg - halo_widths_x s ! TOP, m1 cfg + halo_widths_y s ! BOT - 1, n1 cfg + halo_widths_z s ! BOT - 1)
         (l2 cfg, m2 cfg - halo_widths_y s ! TOP, n2 cfg - halo_widths_z s ! TOP)
         mesh (halo_yz_buffer s ! TOP) AC_YZ] \<and>
    (buffers_allocated s \<longrightarrow>
       distinct [halo_xz_buffer s ! BOT, halo_xz_buffer s ! TOP,
                 halo_yz_buffer s ! BOT, halo_yz_buffer s ! TOP])"
proof -
  note nonneg = initLoadStore_widths_nonneg [OF assms(2), of h, folded assms(3)]
  have inside: "in_interior cfg c" if "k \<in> set (storeInnerHalos cfg s mesh)" "covers cfg k c" for k c
  proof -
    obtain x y z where c: "c = (x, y, z)" by (cases c) auto
    show ?thesis
      unfolding c
      by (rule store_boxes_interior [OF assms(1) nonneg(1) assms(4) nonneg(2) assms(5)
            nonneg(3) assms(6) nonneg(4) assms(7) nonneg(5) assms(8) nonneg(6) assms(9)
            that(1) that(2) [unfolded c]])
  qed
  have bufs: "buffers_allocated s \<longrightarrow>
       distinct [halo_xz_buffer s ! BOT, halo_xz_buffer s ! TOP,
                 halo_yz_buffer s ! BOT, halo_yz_buffer s ! TOP]"
    using initLoadStore_distinct_buffers [OF assms(3)] by blast
  from inside have all_inside:
    "\<forall>k \<in> set (storeInnerHalos cfg s mesh). \<forall>c. covers cfg k c \<longrightarrow> in_interior cfg c"
    by blast
  show ?thesis
    by (intro conjI all_inside bufs store_calls)
qed

theorem store_targets_interior_witness:
  "pencil_geometry cfg_32 \<and> 0 \<le> nghost cfg_32 \<and>
   halo_widths_x state_32 ! BOT \<le> nx cfg_32 \<and> halo_widths_x state_32 ! TOP \<le> nx cfg_32 \<and>
   halo_widths_y state_32 ! BOT \<le> ny cfg_32 \<and> halo_widths_y state_32 ! TOP \<le> ny cfg_32 \<and>
   halo_widths_z state_32 ! BOT \<le> nz cfg_32 \<and> halo_widths_z state_32 ! TOP \<le> nz cfg_32 \<and>
   buffers_allocated state_32 \<and>
   storeInnerFront cfg_32 state_32 () STREAM_6 =
     [AcNodeStoreIXYPlate STREAM_6 (3, 3, 3) (35, 35, 6) () BOT] \<and>
   storeInnerLeft cfg_32 state_32 () STREAM_4 =
     [AcNodeStorePlate STREAM_4 (3, 6, 6) (7, 32, 31) () 2 AC_YZ] \<and>
   covers cfg_32 (AcNodeStoreIXYPlate STREAM_6 (3, 3, 3) (35, 35, 6) () BOT) (34, 34, 5) \<and>
   in_interior cfg_32 (34, 34, 5) \<and>
   distinct [halo_xz_buffer state_32 ! BOT, halo_xz_buffer state_32 ! TOP,
             halo_yz_buffer state_32 ! BOT, halo_yz_buffer state_32 ! TOP]"
proof -
  have g: "pencil_geometry cfg_32" and n: "0 \<le> nghost cfg_32"
    by (simp_all add: pencil_geometry_def cfg_32_def)
  have w: "halo_widths_x state_32 ! BOT \<le> nx cfg_32" "halo_widths_x state_32 ! TOP \<le> nx cfg_32"
    "halo_widths_y state_32 ! BOT \<le> ny cfg_32" "halo_widths_y state_32 ! TOP \<le> ny cfg_32"
    "halo_widths_z state_32 ! BOT \<le> nz cfg_32" "halo_widths_z state_32 ! TOP \<le> nz cfg_32"
    by (simp_all add: state_32_widths cfg_32_def)
  have a: "buffers_allocated state_32"
    by (simp add: buffers_allocated_def state_32_buffers)
  note inst = store_targets_interior [OF g n state_32_def w, of "()"]
  have front: "storeInnerFront cfg_32 state_32 () STREAM_6 =
     [AcNodeStoreIXYPlate STREAM_6 (3, 3, 3) (35, 35, 6) () BOT]"
    using inst [of STREAM_6] by (simp add: state_32_widths cfg_32_def)
  have left: "storeInnerLeft cfg_32 state_32 () STREAM_4 =
     [AcNodeStorePlate STREAM_4 (3, 6, 6) (7, 32, 31) () 2 AC_YZ]"
    using inst [of STREAM_4] by (simp add: state_32_widths state_32_buffers cfg_32_def)
  have cov: "covers cfg_32 (AcNodeStoreIXYPlate STREAM_6 (3, 3, 3) (35, 35, 6) () BOT) (34, 34, 5)"
    by simp
  have "AcNodeStoreIXYPlate STREAM_6 (3, 3, 3) (35, 35, 6) () BOT \<in> set (storeInnerHalos cfg_32 state_32 ())"
    using front by (simp add: storeInnerHalos_def)
  with inst [of STREAM_6] cov have inside: "in_interior cfg_32 (34, 34, 5)"
    by blast
  from inst [of STREAM_6] a have dist: "distinct [halo_xz_buffer state_32 ! BOT, halo_xz_buffer state_32 ! TOP,
             halo_yz_buffer state_32 ! BOT, halo_yz_buffer state_32 ! TOP]"
    by blast
  from g n w a front left cov inside dist show ?thesis
    by blast
qed

subsection \<open>The staging buffers hold their plates\<close>



end
